theory Spec2Isabelle
  imports Complex_Main
begin

section \<open>Numbers and arrays of the calculation engine\<close>

text \<open>
  The engine is the class \<open>FinancialCalculator\<close> of
  \<^verbatim>\<open>src/utils/financialCalculations.ts\<close>; its data are the interfaces of
  \<^verbatim>\<open>src/types/financial.ts\<close>.

  A TypeScript \<open>number\<close> is modelled as a real number: arithmetic is exact and
  the non-finite values of JavaScript (\<open>Infinity\<close>, \<open>NaN\<close>) are not
  represented, so the model speaks of runs on finite numbers, up to rounding. Counts
  that the code only uses as loop bounds and array indices (\<open>projectTimeline\<close>,
  \<open>iterations\<close>, \<open>year\<close>, \<open>index\<close>) are integers or naturals.

  JavaScript arithmetic never raises: a division by zero yields a non-finite value,
  where the quotient \<open>x / 0\<close> of HOL is \<open>0\<close>. The engine divides without a
  guard in three places only: by \<open>(1 + rate) ^ index\<close> when discounting (zero for
  \<open>rate = -1\<close>), by \<open>projectTimeline\<close> in the two averages of
  \<open>calculateMetrics\<close> and by \<open>iterations\<close> in the Monte Carlo summary. No
  proof below evaluates a quotient of reals whose divisor is zero.

  The IRR solver is the exception. Its Newton-Raphson iteration reaches the rate
  \<open>-1\<close> on ordinary cash flows (\<open>[-20, 11]\<close> after one step), where the code
  divides by \<open>Math.pow(0, index)\<close> and goes on with \<open>Infinity\<close> and \<open>NaN\<close>.
  The solver is therefore modelled on the type \<open>jsnum\<close> below, which has these
  values, and the \<open>irr\<close> of the metrics is a \<open>jsnum\<close>.
\<close>

type_synonym number = real

text \<open>\<open>xs[i]\<close>: reading outside the array yields \<open>undefined\<close>, here \<open>None\<close>.\<close>

definition array_get :: "'a list \<Rightarrow> int \<Rightarrow> 'a option" where
  "array_get xs i = (if 0 \<le> i \<and> i < int (length xs) then Some (xs ! nat i) else None)"

text \<open>
  \<open>v || 0\<close>: \<open>undefined\<close> and \<open>0\<close> are falsy and give \<open>0\<close>, every other
  real gives itself.
\<close>

definition or_zero :: "number option \<Rightarrow> number" where
  "or_zero v = (case v of None \<Rightarrow> 0 | Some x \<Rightarrow> (if x = 0 then 0 else x))"

text \<open>
  \<open>xs[i] = v\<close> for \<open>i \<le> xs.length\<close>: an index inside the array overwrites, the
  index \<open>xs.length\<close> extends the array by one element. The engine never writes
  beyond \<open>xs.length\<close>.
\<close>

definition array_set :: "'a list \<Rightarrow> nat \<Rightarrow> 'a \<Rightarrow> 'a list" where
  "array_set xs i v = (if i < length xs then xs[i := v] else xs @ [v])"

text \<open>The years \<open>1 .. projectTimeline\<close> of \<open>for (let year = 1; year <= projectTimeline; year++)\<close>.\<close>

definition years :: "int \<Rightarrow> nat list" where
  "years timeline = [1..<Suc (nat timeline)]"

section \<open>JavaScript numbers with their non-finite values\<close>

text \<open>
  A \<open>jsnum\<close> is a finite number, \<open>Infinity\<close>, \<open>-Infinity\<close> or \<open>NaN\<close>.
  The operations follow IEEE 754 on the non-finite values and are exact on the finite
  ones. The two zeros are not distinguished: a zero divisor counts as \<open>+0\<close>, which
  is what \<open>1 + rate\<close> and its powers are at \<open>rate = -1\<close>, the only zero
  divisors of the solver (its derivative is tested before it divides).
\<close>

datatype jsnum = Fin real | PosInf | NegInf | NaN

fun js_neg :: "jsnum \<Rightarrow> jsnum" where
  "js_neg (Fin x) = Fin (- x)"
| "js_neg PosInf = NegInf"
| "js_neg NegInf = PosInf"
| "js_neg NaN = NaN"

fun js_add :: "jsnum \<Rightarrow> jsnum \<Rightarrow> jsnum" where
  "js_add NaN b = NaN"
| "js_add a NaN = NaN"
| "js_add (Fin x) (Fin y) = Fin (x + y)"
| "js_add (Fin x) PosInf = PosInf"
| "js_add (Fin x) NegInf = NegInf"
| "js_add PosInf (Fin y) = PosInf"
| "js_add NegInf (Fin y) = NegInf"
| "js_add PosInf PosInf = PosInf"
| "js_add NegInf NegInf = NegInf"
| "js_add PosInf NegInf = NaN"
| "js_add NegInf PosInf = NaN"

definition js_sub :: "jsnum \<Rightarrow> jsnum \<Rightarrow> jsnum" where
  "js_sub a b = js_add a (js_neg b)"

fun js_mul :: "jsnum \<Rightarrow> jsnum \<Rightarrow> jsnum" where
  "js_mul NaN b = NaN"
| "js_mul a NaN = NaN"
| "js_mul (Fin x) (Fin y) = Fin (x * y)"
| "js_mul (Fin x) PosInf = (if x = 0 then NaN else if x > 0 then PosInf else NegInf)"
| "js_mul (Fin x) NegInf = (if x = 0 then NaN else if x > 0 then NegInf else PosInf)"
| "js_mul PosInf (Fin y) = (if y = 0 then NaN else if y > 0 then PosInf else NegInf)"
| "js_mul NegInf (Fin y) = (if y = 0 then NaN else if y > 0 then NegInf else PosInf)"
| "js_mul PosInf PosInf = PosInf"
| "js_mul NegInf NegInf = PosInf"
| "js_mul PosInf NegInf = NegInf"
| "js_mul NegInf PosInf = NegInf"

fun js_div :: "jsnum \<Rightarrow> jsnum \<Rightarrow> jsnum" where
  "js_div NaN b = NaN"
| "js_div a NaN = NaN"
| "js_div (Fin x) (Fin y) =
     (if y = 0 then (if x = 0 then NaN else if x > 0 then PosInf else NegInf)
      else Fin (x / y))"
| "js_div (Fin x) PosInf = Fin 0"
| "js_div (Fin x) NegInf = Fin 0"
| "js_div PosInf (Fin y) = (if y < 0 then NegInf else PosInf)"
| "js_div NegInf (Fin y) = (if y < 0 then PosInf else NegInf)"
| "js_div PosInf PosInf = NaN"
| "js_div NegInf NegInf = NaN"
| "js_div PosInf NegInf = NaN"
| "js_div NegInf PosInf = NaN"

text \<open>\<open>Math.pow(b, n)\<close> for a natural exponent; \<open>Math.pow(b, 0)\<close> is 1 for every \<open>b\<close>, also \<open>NaN\<close>.\<close>

fun js_pow :: "jsnum \<Rightarrow> nat \<Rightarrow> jsnum" where
  "js_pow b 0 = Fin 1"
| "js_pow (Fin x) (Suc n) = Fin (x ^ Suc n)"
| "js_pow PosInf (Suc n) = PosInf"
| "js_pow NegInf (Suc n) = (if even (Suc n) then PosInf else NegInf)"
| "js_pow NaN (Suc n) = NaN"

fun js_abs :: "jsnum \<Rightarrow> jsnum" where
  "js_abs (Fin x) = Fin \<bar>x\<bar>"
| "js_abs PosInf = PosInf"
| "js_abs NegInf = PosInf"
| "js_abs NaN = NaN"

text \<open>\<open>a < b\<close> and \<open>a >= b\<close>: both are false when an operand is \<open>NaN\<close>.\<close>

fun js_lt :: "jsnum \<Rightarrow> jsnum \<Rightarrow> bool" where
  "js_lt NaN b = False"
| "js_lt a NaN = False"
| "js_lt (Fin x) (Fin y) = (x < y)"
| "js_lt (Fin x) PosInf = True"
| "js_lt (Fin x) NegInf = False"
| "js_lt PosInf b = False"
| "js_lt NegInf (Fin y) = True"
| "js_lt NegInf PosInf = True"
| "js_lt NegInf NegInf = False"


section \<open>Data model\<close>

record ProjectParameters =
  initialInvestment :: number
  projectTimeline :: int
  annualRevenues :: "number list"
  operatingCosts :: "number list"
  taxRate :: number
  discountRate :: number
  depreciationRate :: number
  workingCapital :: number
  terminalGrowthRate :: number
  terminalValue :: number

record FinancialMetrics =
  npv :: number
  irr :: jsnum
  paybackPeriod :: number
  roi :: number
  ebitdaMargin :: number
  freeCashFlows :: "number list"
  cumulativeCashFlows :: "number list"
  presentValues :: "number list"

section \<open>Valuation: NPV, IRR, payback, ratios\<close>

definition calculateNPV :: "number list \<Rightarrow> number \<Rightarrow> number" where
  "calculateNPV cashFlows rate =
     fold (\<lambda>(index, cashFlow) acc. acc + cashFlow / (1 + rate) ^ index)
       (enumerate 0 cashFlows) 0"

text \<open>
  \<open>calculateNPV\<close> as the IRR solver calls it, on a rate that may be \<open>-1\<close> or
  non-finite. On finite cash flows and a finite rate other than \<open>-1\<close> it is
  \<open>calculateNPV\<close> (lemma \<open>js_calculateNPV_finite\<close>).
\<close>

definition js_calculateNPV :: "jsnum list \<Rightarrow> jsnum \<Rightarrow> jsnum" where
  "js_calculateNPV cashFlows rate =
     fold (\<lambda>(index, cashFlow) acc. js_add acc (js_div cashFlow (js_pow (js_add (Fin 1) rate) index)))
       (enumerate 0 cashFlows) (Fin 0)"

definition maxIterations :: nat where
  "maxIterations = 100"

definition tolerance :: jsnum where
  "tolerance = Fin (1 / 10000000)"

definition irr_derivative :: "jsnum list \<Rightarrow> jsnum \<Rightarrow> jsnum" where
  "irr_derivative cashFlows rate =
     fold (\<lambda>(index, cashFlow) acc.
             js_sub acc (js_div (js_mul (Fin (real index)) cashFlow)
                                (js_pow (js_add (Fin 1) rate) (index + 1))))
       (enumerate 0 cashFlows) (Fin 0)"

text \<open>
  One pass through the body of the Newton-Raphson loop of \<open>calculateIRR\<close>:
  \<open>Break\<close> leaves the loop with the current \<open>rate\<close>, \<open>Continue\<close> goes on with
  \<open>newRate\<close>. A \<open>NaN\<close> derivative fails the test \<open>Math.abs(derivative) < tolerance\<close>,
  so the pass goes on to divide by it.
\<close>

datatype loop_exit = Break jsnum | Continue jsnum

definition irr_body :: "jsnum list \<Rightarrow> jsnum \<Rightarrow> loop_exit" where
  "irr_body cashFlows rate =
     (let npv_at_rate = js_calculateNPV cashFlows rate;
          derivative = irr_derivative cashFlows rate
      in if js_lt (js_abs derivative) tolerance then Break rate
         else let newRate = js_sub rate (js_div npv_at_rate derivative)
              in if js_lt (js_abs (js_sub newRate rate)) tolerance then Break rate
                 else Continue newRate)"

text \<open>
  The loop \<open>for (let i = 0; i < maxIterations; i++)\<close>; the result is the final
  \<open>rate\<close> together with the value of \<open>i\<close> at which the loop was left.
\<close>

function irr_loop :: "jsnum list \<Rightarrow> nat \<Rightarrow> jsnum \<Rightarrow> jsnum \<times> nat" where
  "irr_loop cashFlows i rate =
     (if i < maxIterations
      then (case irr_body cashFlows rate of
              Break r \<Rightarrow> (r, i)
            | Continue newRate \<Rightarrow> irr_loop cashFlows (i + 1) newRate)
      else (rate, i))"
  by pat_completeness auto
termination
  by (relation "measure (\<lambda>(cashFlows, i, rate). maxIterations - i)") auto

definition calculateIRR :: "jsnum list \<Rightarrow> jsnum \<Rightarrow> jsnum" where
  "calculateIRR cashFlows guess = fst (irr_loop cashFlows 0 guess)"

text \<open>The default value of the parameter \<open>guess\<close>.\<close>

definition default_guess :: jsnum where
  "default_guess = Fin (1 / 10)"

function payback_loop :: "number list \<Rightarrow> nat \<Rightarrow> number \<Rightarrow> number" where
  "payback_loop cashFlows i cumulativeCashFlow =
     (if i < length cashFlows
      then (let cumulative = cumulativeCashFlow + cashFlows ! i
            in if cumulative \<ge> 0
               then (if i = 0 then 0
                     else (let previousCumulative = cumulative - cashFlows ! i
                           in real i - 1 + \<bar>previousCumulative\<bar> / cashFlows ! i))
               else payback_loop cashFlows (i + 1) cumulative)
      else real (length cashFlows))"
  by pat_completeness auto
termination
  by (relation "measure (\<lambda>(cashFlows, i, c). length cashFlows - i)") auto

definition calculatePaybackPeriod :: "number list \<Rightarrow> number" where
  "calculatePaybackPeriod cashFlows = payback_loop cashFlows 0 0"

definition calculateROI :: "number \<Rightarrow> number \<Rightarrow> number" where
  "calculateROI totalGains investment =
     (if investment = 0 then 0 else (totalGains / investment) * 100)"

definition calculateEBITDAMargin :: "number \<Rightarrow> number \<Rightarrow> number" where
  "calculateEBITDAMargin ebitda_value revenue_value =
     (if revenue_value = 0 then 0 else (ebitda_value / revenue_value) * 100)"

section \<open>Free cash flows and metrics\<close>

text \<open>
  The locals of one pass of the loop of \<open>calculateFreeCashFlows\<close>, in the order
  \<open>(depreciation, ebit, tax, nopat, freeCashFlow)\<close>.
\<close>

definition fcf_year :: "ProjectParameters \<Rightarrow> nat \<Rightarrow> number \<times> number \<times> number \<times> number \<times> number" where
  "fcf_year params year =
     (let revenue = or_zero (array_get (annualRevenues params) (int year - 1));
          operatingCost = or_zero (array_get (operatingCosts params) (int year - 1));
          depreciation = initialInvestment params * depreciationRate params;
          ebit = revenue - operatingCost - depreciation;
          tax = (if ebit > 0 then ebit * taxRate params else 0);
          nopat = ebit - tax;
          freeCashFlow = nopat + depreciation
      in (depreciation, ebit, tax, nopat, freeCashFlow))"

definition calculateFreeCashFlows :: "ProjectParameters \<Rightarrow> number list" where
  "calculateFreeCashFlows params =
     (let cashFlows0 = array_set [] 0 (- initialInvestment params - workingCapital params);
          cashFlows = fold (\<lambda>year cfs. array_set cfs year (snd (snd (snd (snd (fcf_year params year))))))
                        (years (projectTimeline params)) cashFlows0
      in if length cashFlows > 0
         then cashFlows[length cashFlows - 1 :=
                cashFlows ! (length cashFlows - 1) + (terminalValue params + workingCapital params)]
         else cashFlows)"

definition running_sums :: "number list \<Rightarrow> number list" where
  "running_sums flows =
     fold (\<lambda>(index, flow) acc. array_set acc index (or_zero (array_get acc (int index - 1)) + flow))
       (enumerate 0 flows) []"

definition calculateMetrics :: "ProjectParameters \<Rightarrow> FinancialMetrics" where
  "calculateMetrics params =
     (let flows = calculateFreeCashFlows params;
          totalRevenue = fold (\<lambda>rev s. s + rev) (annualRevenues params) 0;
          totalCosts = fold (\<lambda>cost s. s + cost) (operatingCosts params) 0;
          totalGains = totalRevenue - totalCosts - initialInvestment params;
          avgRevenue = totalRevenue / real_of_int (projectTimeline params);
          avgEbitda = (totalRevenue - totalCosts) / real_of_int (projectTimeline params)
      in \<lparr> npv = calculateNPV flows (discountRate params),
           irr = calculateIRR (map Fin flows) default_guess,
           paybackPeriod = calculatePaybackPeriod flows,
           roi = calculateROI totalGains (initialInvestment params),
           ebitdaMargin = calculateEBITDAMargin avgEbitda avgRevenue,
           freeCashFlows = flows,
           cumulativeCashFlows = running_sums flows,
           presentValues = map (\<lambda>(index, flow). flow / (1 + discountRate params) ^ index)
                             (enumerate 0 flows) \<rparr>)"

section \<open>Scenario analysis\<close>

record ScenarioAnalysis =
  bestCase :: FinancialMetrics
  baseCase :: FinancialMetrics
  worstCase :: FinancialMetrics

definition bestCaseParams :: "ProjectParameters \<Rightarrow> ProjectParameters" where
  "bestCaseParams baseParams =
     baseParams\<lparr> annualRevenues := map (\<lambda>rev. rev * (12 / 10)) (annualRevenues baseParams),
                 operatingCosts := map (\<lambda>cost. cost * (9 / 10)) (operatingCosts baseParams) \<rparr>"

definition worstCaseParams :: "ProjectParameters \<Rightarrow> ProjectParameters" where
  "worstCaseParams baseParams =
     baseParams\<lparr> annualRevenues := map (\<lambda>rev. rev * (8 / 10)) (annualRevenues baseParams),
                 operatingCosts := map (\<lambda>cost. cost * (115 / 100)) (operatingCosts baseParams) \<rparr>"

definition calculateScenarioAnalysis :: "ProjectParameters \<Rightarrow> ScenarioAnalysis" where
  "calculateScenarioAnalysis baseParams =
     \<lparr> bestCase = calculateMetrics (bestCaseParams baseParams),
       baseCase = calculateMetrics baseParams,
       worstCase = calculateMetrics (worstCaseParams baseParams) \<rparr>"

section \<open>Monte Carlo simulation\<close>

text \<open>
  The two result arrays are objects on the heap: \<open>push\<close> and \<open>sort\<close> change the
  array they are called on, and \<open>sort\<close> returns the reference of that same array.
  A heap maps a reference to the content of its array; there is one heap for each type
  of elements, the numbers of \<open>npvResults\<close> and the \<open>jsnum\<close>s of
  \<open>irrResults\<close>.
\<close>

type_synonym ref = nat

type_synonym 'a heap = "ref \<Rightarrow> 'a list"

definition array_push :: "'a heap \<Rightarrow> ref \<Rightarrow> 'a \<Rightarrow> 'a heap" where
  "array_push h r v = h(r := h r @ [v])"

text \<open>\<open>r.sort((a, b) => a - b)\<close>: ascending, in place; the value is \<open>r\<close> itself.\<close>

definition array_sort :: "number heap \<Rightarrow> ref \<Rightarrow> number heap \<times> ref" where
  "array_sort h r = (h(r := sort (h r)), r)"

text \<open>
  \<open>Math.random()\<close> is the only source of randomness. A run is given the sequence
  \<open>rnd\<close> of the values its successive calls return (\<open>rnd k\<close> for call number
  \<open>k\<close>, each in \<open>[0, 1)\<close>); the loop state counts the calls made so far.
\<close>

definition simulationParams :: "ProjectParameters \<Rightarrow> number \<Rightarrow> number \<Rightarrow> number \<Rightarrow> ProjectParameters" where
  "simulationParams params u1 u2 u3 =
     (let revenueVariation = 8 / 10 + u1 * (4 / 10);
          costVariation = 85 / 100 + u2 * (3 / 10);
          discountVariation = discountRate params * (9 / 10 + u3 * (2 / 10))
      in params\<lparr> annualRevenues := map (\<lambda>rev. rev * revenueVariation) (annualRevenues params),
                  operatingCosts := map (\<lambda>cost. cost * costVariation) (operatingCosts params),
                  discountRate := discountVariation \<rparr>)"

definition monteCarlo_body ::
  "ProjectParameters \<Rightarrow> (nat \<Rightarrow> number) \<Rightarrow> ref \<Rightarrow> ref \<Rightarrow> nat
     \<Rightarrow> number heap \<times> jsnum heap \<times> nat \<Rightarrow> number heap \<times> jsnum heap \<times> nat" where
  "monteCarlo_body params rnd npvResults irrResults i st =
     (case st of (h, hj, calls) \<Rightarrow>
        let metrics = calculateMetrics
                        (simulationParams params (rnd calls) (rnd (calls + 1)) (rnd (calls + 2)));
            h1 = array_push h npvResults (npv metrics);
            hj1 = array_push hj irrResults (irr metrics)
        in (h1, hj1, calls + 3))"

record NpvPercentiles =
  p10 :: "number option"
  p25 :: "number option"
  p50 :: "number option"
  p75 :: "number option"
  p90 :: "number option"

record MonteCarloResult =
  npvDistribution :: "number list"
  irrDistribution :: "jsnum list"
  probabilityOfPositiveNPV :: number
  expectedNPV :: number
  npvPercentiles :: NpvPercentiles

text \<open>
  The returned object holds the references \<open>npvResults\<close> and \<open>irrResults\<close>; the
  model returns what the caller reads through them, the content of the arrays in the
  final heap. A percentile read outside the array is \<open>undefined\<close> (\<open>None\<close>).
\<close>

definition runMonteCarloSimulation ::
  "ProjectParameters \<Rightarrow> nat \<Rightarrow> (nat \<Rightarrow> number) \<Rightarrow> MonteCarloResult" where
  "runMonteCarloSimulation params iterations rnd =
     (let npvResults = (0 :: ref);
          irrResults = (1 :: ref);
          h0 = (\<lambda>r. []);
          hj0 = (\<lambda>r. []);
          (h1, hj1, calls) = fold (monteCarlo_body params rnd npvResults irrResults)
                               [0..<iterations] (h0, hj0, 0);
          (h2, sortedNPV) = array_sort h1 npvResults;
          probability = real (length (filter (\<lambda>v. v > 0) (h2 npvResults))) / real iterations;
          expected = fold (\<lambda>v s. s + v) (h2 npvResults) 0 / real iterations
      in \<lparr> npvDistribution = h2 npvResults,
           irrDistribution = hj1 irrResults,
           probabilityOfPositiveNPV = probability,
           expectedNPV = expected,
           npvPercentiles =
             \<lparr> p10 = array_get (h2 sortedNPV) \<lfloor>real iterations * (1 / 10)\<rfloor>,
               p25 = array_get (h2 sortedNPV) \<lfloor>real iterations * (25 / 100)\<rfloor>,
               p50 = array_get (h2 sortedNPV) \<lfloor>real iterations * (5 / 10)\<rfloor>,
               p75 = array_get (h2 sortedNPV) \<lfloor>real iterations * (75 / 100)\<rfloor>,
               p90 = array_get (h2 sortedNPV) \<lfloor>real iterations * (9 / 10)\<rfloor> \<rparr> \<rparr>)"

text \<open>
  The entry point as the specification names it, \<open>runMonteCarlo(params, iterations, seed?)\<close>.
  The function of the source has the two parameters \<open>params\<close> and \<open>iterations\<close>
  only and never seeds \<open>Math.random\<close>; a third argument of a JavaScript call is
  dropped.
\<close>

definition runMonteCarlo ::
  "ProjectParameters \<Rightarrow> nat \<Rightarrow> nat option \<Rightarrow> (nat \<Rightarrow> number) \<Rightarrow> MonteCarloResult" where
  "runMonteCarlo params iterations seed rnd = runMonteCarloSimulation params iterations rnd"

text \<open>The metrics computed in iteration \<open>i\<close> of a run, from calls \<open>3i, 3i+1, 3i+2\<close>.\<close>

definition iteration_metrics :: "ProjectParameters \<Rightarrow> (nat \<Rightarrow> number) \<Rightarrow> nat \<Rightarrow> FinancialMetrics" where
  "iteration_metrics params rnd i =
     calculateMetrics (simulationParams params (rnd (3 * i)) (rnd (3 * i + 1)) (rnd (3 * i + 2)))"

section \<open>Financial statements\<close>

text \<open>
  The three statement records share field names (\<open>year\<close>, \<open>netIncome\<close>,
  \<open>depreciation\<close>, ...); the fields carry the prefix \<open>is_\<close>, \<open>bs_\<close> or
  \<open>cf_\<close> of their record.
\<close>

record IncomeStatement =
  is_year :: nat
  is_revenue :: number
  is_costOfGoodsSold :: number
  is_grossProfit :: number
  is_operatingExpenses :: number
  is_ebitda :: number
  is_depreciation :: number
  is_ebit :: number
  is_interestExpense :: number
  is_ebt :: number
  is_taxExpense :: number
  is_netIncome :: number
  is_ebitdaMargin :: number
  is_netProfitMargin :: number

record BalanceSheet =
  bs_year :: nat
  bs_cashAndEquivalents :: number
  bs_accountsReceivable :: number
  bs_inventory :: number
  bs_prepaidExpenses :: number
  bs_totalCurrentAssets :: number
  bs_propertyPlantEquipment :: number
  bs_accumulatedDepreciation :: number
  bs_netPPE :: number
  bs_totalAssets :: number
  bs_accountsPayable :: number
  bs_accruedExpenses :: number
  bs_shortTermDebt :: number
  bs_totalCurrentLiabilities :: number
  bs_longTermDebt :: number
  bs_totalLiabilities :: number
  bs_commonStock :: number
  bs_retainedEarnings :: number
  bs_totalEquity :: number
  bs_currentRatio :: number
  bs_debtToEquityRatio :: number
  bs_returnOnEquity :: number

record CashFlowStatement =
  cf_year :: nat
  cf_netIncome :: number
  cf_depreciation :: number
  cf_changesInWorkingCapital :: number
  cf_netOperatingCashFlow :: number
  cf_capitalExpenditures :: number
  cf_netInvestingCashFlow :: number
  cf_debtIssuance :: number
  cf_debtRepayment :: number
  cf_dividends :: number
  cf_netFinancingCashFlow :: number
  cf_netCashFlow :: number
  cf_beginningCashBalance :: number
  cf_endingCashBalance :: number

record ReportSummary =
  totalRevenue :: number
  totalNetIncome :: number
  totalAssets :: number
  totalLiabilities :: number
  totalEquity :: number
  cumulativeCashFlow :: number

record FinancialReports =
  incomeStatements :: "IncomeStatement list"
  balanceSheets :: "BalanceSheet list"
  cashFlowStatements :: "CashFlowStatement list"
  summary :: ReportSummary

definition incomeStatement_year :: "ProjectParameters \<Rightarrow> nat \<Rightarrow> IncomeStatement" where
  "incomeStatement_year params year =
     (let revenue = or_zero (array_get (annualRevenues params) (int year - 1));
          operatingCost = or_zero (array_get (operatingCosts params) (int year - 1));
          depreciation = initialInvestment params * depreciationRate params;
          costOfGoodsSold = operatingCost * (6 / 10);
          operatingExpenses = operatingCost * (4 / 10);
          grossProfit = revenue - costOfGoodsSold;
          ebitda = revenue - operatingCost;
          ebit = ebitda - depreciation;
          interestExpense = initialInvestment params * (1 / 10);
          ebt = ebit - interestExpense;
          taxExpense = (if ebt > 0 then ebt * taxRate params else 0);
          netIncome = ebt - taxExpense
      in \<lparr> is_year = year,
           is_revenue = revenue,
           is_costOfGoodsSold = costOfGoodsSold,
           is_grossProfit = grossProfit,
           is_operatingExpenses = operatingExpenses,
           is_ebitda = ebitda,
           is_depreciation = depreciation,
           is_ebit = ebit,
           is_interestExpense = interestExpense,
           is_ebt = ebt,
           is_taxExpense = taxExpense,
           is_netIncome = netIncome,
           is_ebitdaMargin = (if revenue > 0 then (ebitda / revenue) * 100 else 0),
           is_netProfitMargin = (if revenue > 0 then (netIncome / revenue) * 100 else 0) \<rparr>)"

definition generateIncomeStatements :: "ProjectParameters \<Rightarrow> IncomeStatement list" where
  "generateIncomeStatements params =
     fold (\<lambda>year statements. statements @ [incomeStatement_year params year])
       (years (projectTimeline params)) []"

text \<open>
  The state of the balance-sheet loop: the sheets pushed so far and the three running
  accumulators \<open>retainedEarnings\<close>, \<open>accumulatedDepreciation\<close>, \<open>cashBalance\<close>.
\<close>

type_synonym balance_state = "BalanceSheet list \<times> number \<times> number \<times> number"

definition balanceSheet_body :: "ProjectParameters \<Rightarrow> nat \<Rightarrow> balance_state \<Rightarrow> balance_state" where
  "balanceSheet_body params year st =
     (case st of (sheets, retainedEarnings0, accumulatedDepreciation0, cashBalance0) \<Rightarrow>
        let revenue = or_zero (array_get (annualRevenues params) (int year - 1));
            operatingCost = or_zero (array_get (operatingCosts params) (int year - 1));
            depreciation = initialInvestment params * depreciationRate params;
            netIncome = revenue - operatingCost - depreciation;
            retainedEarnings = retainedEarnings0 + netIncome;
            accumulatedDepreciation = accumulatedDepreciation0 + depreciation;
            cashBalance = cashBalance0 + (netIncome + depreciation);
            accountsReceivable = revenue * (15 / 100);
            inventory = operatingCost * (2 / 10);
            prepaidExpenses = operatingCost * (5 / 100);
            accountsPayable = operatingCost * (25 / 100);
            accruedExpenses = operatingCost * (1 / 10);
            totalCurrentAssets = cashBalance + accountsReceivable + inventory + prepaidExpenses;
            netPPE = initialInvestment params - accumulatedDepreciation;
            totalAssets_y = totalCurrentAssets + netPPE;
            totalCurrentLiabilities = accountsPayable + accruedExpenses;
            longTermDebt = initialInvestment params * (6 / 10);
            totalLiabilities_y = totalCurrentLiabilities + longTermDebt;
            commonStock = initialInvestment params * (4 / 10);
            totalEquity_y = commonStock + retainedEarnings
        in (sheets @
            [\<lparr> bs_year = year,
                bs_cashAndEquivalents = cashBalance,
                bs_accountsReceivable = accountsReceivable,
                bs_inventory = inventory,
                bs_prepaidExpenses = prepaidExpenses,
                bs_totalCurrentAssets = totalCurrentAssets,
                bs_propertyPlantEquipment = initialInvestment params,
                bs_accumulatedDepreciation = accumulatedDepreciation,
                bs_netPPE = netPPE,
                bs_totalAssets = totalAssets_y,
                bs_accountsPayable = accountsPayable,
                bs_accruedExpenses = accruedExpenses,
                bs_shortTermDebt = 0,
                bs_totalCurrentLiabilities = totalCurrentLiabilities,
                bs_longTermDebt = longTermDebt,
                bs_totalLiabilities = totalLiabilities_y,
                bs_commonStock = commonStock,
                bs_retainedEarnings = retainedEarnings,
                bs_totalEquity = totalEquity_y,
                bs_currentRatio =
                  (if totalCurrentLiabilities > 0 then totalCurrentAssets / totalCurrentLiabilities else 0),
                bs_debtToEquityRatio =
                  (if totalEquity_y > 0 then totalLiabilities_y / totalEquity_y else 0),
                bs_returnOnEquity =
                  (if totalEquity_y > 0 then (netIncome / totalEquity_y) * 100 else 0) \<rparr>],
            retainedEarnings, accumulatedDepreciation, cashBalance))"

definition generateBalanceSheets :: "ProjectParameters \<Rightarrow> BalanceSheet list" where
  "generateBalanceSheets params =
     fst (fold (balanceSheet_body params) (years (projectTimeline params))
            ([], 0, 0, workingCapital params))"

text \<open>
  The state of the cash-flow loop: the statements pushed so far and
  \<open>beginningCashBalance\<close>.
\<close>

type_synonym cashflow_state = "CashFlowStatement list \<times> number"

definition cashFlowStatement_body :: "ProjectParameters \<Rightarrow> nat \<Rightarrow> cashflow_state \<Rightarrow> cashflow_state" where
  "cashFlowStatement_body params year st =
     (case st of (statements, beginningCashBalance) \<Rightarrow>
        let revenue = or_zero (array_get (annualRevenues params) (int year - 1));
            operatingCost = or_zero (array_get (operatingCosts params) (int year - 1));
            depreciation = initialInvestment params * depreciationRate params;
            netIncome = revenue - operatingCost - depreciation;
            accountsReceivable = revenue * (15 / 100);
            inventory = operatingCost * (2 / 10);
            accountsPayable = operatingCost * (25 / 100);
            changesInWorkingCapital = accountsReceivable + inventory - accountsPayable;
            netOperatingCashFlow = netIncome + depreciation - changesInWorkingCapital;
            capitalExpenditures =
              (if year = 1 then initialInvestment params else initialInvestment params * (5 / 100));
            netInvestingCashFlow = - capitalExpenditures;
            debtIssuance = (if year = 1 then initialInvestment params * (6 / 10) else 0);
            debtRepayment =
              (if year > 1 then debtIssuance / (real_of_int (projectTimeline params) - 1) else 0);
            dividends = (if netIncome > 0 then netIncome * (3 / 10) else 0);
            netFinancingCashFlow = debtIssuance - debtRepayment - dividends;
            netCashFlow = netOperatingCashFlow + netInvestingCashFlow + netFinancingCashFlow;
            endingCashBalance = beginningCashBalance + netCashFlow
        in (statements @
            [\<lparr> cf_year = year,
                cf_netIncome = netIncome,
                cf_depreciation = depreciation,
                cf_changesInWorkingCapital = changesInWorkingCapital,
                cf_netOperatingCashFlow = netOperatingCashFlow,
                cf_capitalExpenditures = capitalExpenditures,
                cf_netInvestingCashFlow = netInvestingCashFlow,
                cf_debtIssuance = debtIssuance,
                cf_debtRepayment = debtRepayment,
                cf_dividends = dividends,
                cf_netFinancingCashFlow = netFinancingCashFlow,
                cf_netCashFlow = netCashFlow,
                cf_beginningCashBalance = beginningCashBalance,
                cf_endingCashBalance = endingCashBalance \<rparr>],
            endingCashBalance))"

definition generateCashFlowStatements :: "ProjectParameters \<Rightarrow> CashFlowStatement list" where
  "generateCashFlowStatements params =
     fst (fold (cashFlowStatement_body params) (years (projectTimeline params))
            ([], workingCapital params))"

text \<open>
  \<open>balanceSheets[balanceSheets.length - 1]?.field || 0\<close>: \<open>0\<close> when there is no
  sheet.
\<close>

definition last_field :: "('a \<Rightarrow> number) \<Rightarrow> 'a list \<Rightarrow> number" where
  "last_field field xs = or_zero (map_option field (array_get xs (int (length xs) - 1)))"

definition generateFinancialReports :: "ProjectParameters \<Rightarrow> FinancialReports" where
  "generateFinancialReports params =
     (let incomes = generateIncomeStatements params;
          sheets = generateBalanceSheets params;
          cashFlows = generateCashFlowStatements params
      in \<lparr> incomeStatements = incomes,
           balanceSheets = sheets,
           cashFlowStatements = cashFlows,
           summary =
             \<lparr> totalRevenue = fold (\<lambda>stmt s. s + is_revenue stmt) incomes 0,
               totalNetIncome = fold (\<lambda>stmt s. s + is_netIncome stmt) incomes 0,
               totalAssets = last_field bs_totalAssets sheets,
               totalLiabilities = last_field bs_totalLiabilities sheets,
               totalEquity = last_field bs_totalEquity sheets,
               cumulativeCashFlow = fold (\<lambda>stmt s. s + cf_netCashFlow stmt) cashFlows 0 \<rparr> \<rparr>)"

section \<open>The outcome of a call\<close>

text \<open>
  The specification lets the entry point \<open>computeMetrics\<close> fail with an
  \<open>InvalidParameterError\<close>. A call of \<open>calculateMetrics\<close> is modelled with its
  outcome, an error or the returned value: the source has no \<open>throw\<close> statement and
  no check of its parameters on any path, and JavaScript arithmetic and array reads do
  not raise, so every path ends in the \<open>return\<close>.
\<close>

datatype error = InvalidParameterError

definition computeMetrics :: "ProjectParameters \<Rightarrow> error + FinancialMetrics" where
  "computeMetrics params = Inr (calculateMetrics params)"

section \<open>Reference functions and concrete inputs\<close>

text \<open>The running sums of a list, started at \<open>c\<close>: what the prefix-sum loop computes.\<close>

fun sums_from :: "number \<Rightarrow> number list \<Rightarrow> number list" where
  "sums_from c [] = []"
| "sums_from c (y # ys) = (c + y) # sums_from (c + y) ys"

text \<open>
  The array \<open>cashFlows\<close> of \<open>calculateFreeCashFlows\<close> when its loop is left,
  before the terminal value is added to the last entry.
\<close>

definition base_flows :: "ProjectParameters \<Rightarrow> number list" where
  "base_flows params =
     (- initialInvestment params - workingCapital params)
       # map (\<lambda>year. snd (snd (snd (snd (fcf_year params year))))) (years (projectTimeline params))"




text \<open>The concrete scenario of the specification: one year, 150000 of revenue, 50000 of costs.\<close>

definition concrete_scenario :: ProjectParameters where
  "concrete_scenario =
     \<lparr> initialInvestment = 100000, projectTimeline = 1, annualRevenues = [150000],
       operatingCosts = [50000], taxRate = 25 / 100, discountRate = 10 / 100,
       depreciationRate = 20 / 100, workingCapital = 0, terminalGrowthRate = 0,
       terminalValue = 0 \<rparr>"

text \<open>The same project over three years, with 10000 of working capital.\<close>

definition three_year_project :: ProjectParameters where
  "three_year_project =
     \<lparr> initialInvestment = 100000, projectTimeline = 3,
       annualRevenues = [150000, 150000, 150000],
       operatingCosts = [50000, 50000, 50000], taxRate = 25 / 100, discountRate = 10 / 100,
       depreciationRate = 20 / 100, workingCapital = 10000, terminalGrowthRate = 0,
       terminalValue = 0 \<rparr>"

text \<open>The concrete scenario with a tax rate of 200%, outside the documented domain \<open>[0, 1]\<close>.\<close>

definition over_taxed :: ProjectParameters where
  "over_taxed = concrete_scenario\<lparr> taxRate := 2 \<rparr>"

text \<open>
  The parameters with both sequences extended by zeros to the length of the timeline:
  what "missing entries are treated as 0" compares a short sequence with.
\<close>

definition zero_padded :: "ProjectParameters \<Rightarrow> ProjectParameters" where
  "zero_padded params =
     params\<lparr> annualRevenues :=
               annualRevenues params
                 @ replicate (nat (projectTimeline params) - length (annualRevenues params)) 0,
             operatingCosts :=
               operatingCosts params
                 @ replicate (nat (projectTimeline params) - length (operatingCosts params)) 0 \<rparr>"

text \<open>
  The values pushed on \<open>npvResults\<close> and \<open>irrResults\<close> by the first \<open>n\<close>
  iterations, in the order of the iterations.
\<close>

definition recorded_npv :: "ProjectParameters \<Rightarrow> (nat \<Rightarrow> number) \<Rightarrow> nat \<Rightarrow> number list" where
  "recorded_npv params rnd n = map (\<lambda>i. npv (iteration_metrics params rnd i)) [0..<n]"

definition recorded_irr :: "ProjectParameters \<Rightarrow> (nat \<Rightarrow> number) \<Rightarrow> nat \<Rightarrow> jsnum list" where
  "recorded_irr params rnd n = map (\<lambda>i. irr (iteration_metrics params rnd i)) [0..<n]"

text \<open>
  Sequences of values of \<open>Math.random()\<close>: always \<open>0.5\<close>; always \<open>0\<close>;
  \<open>0.5\<close> except for call 3, the revenue draw of the second iteration, which is
  \<open>0\<close>; and \<open>0.5\<close> for the first three calls, \<open>0\<close> after them.
\<close>

definition draws_half :: "nat \<Rightarrow> number" where
  "draws_half k = 1 / 2"

definition draws_zero :: "nat \<Rightarrow> number" where
  "draws_zero k = 0"

definition draws_low_second :: "nat \<Rightarrow> number" where
  "draws_low_second k = (if k = 3 then 0 else 1 / 2)"

definition draws_half_then_zero :: "nat \<Rightarrow> number" where
  "draws_half_then_zero k = (if k < 3 then 1 / 2 else 0)"

section \<open>Arrays and loops\<close>

lemma or_zero_Some [simp]: "or_zero (Some x) = x"
  by (simp add: or_zero_def)

lemma or_zero_None [simp]: "or_zero None = 0"
  by (simp add: or_zero_def)

lemma array_set_length [simp]: "array_set xs (length xs) v = xs @ [v]"
  by (simp add: array_set_def)

lemma array_get_last:
  "array_get acc (int (length acc) - 1) = (if acc = [] then None else Some (last acc))"
  by (cases acc rule: rev_cases) (auto simp: array_get_def nth_append)

lemma running_sums_fold:
  "length acc = k \<Longrightarrow>
   fold (\<lambda>(index, flow) acc. array_set acc index (or_zero (array_get acc (int index - 1)) + flow))
     (enumerate k ys) acc
   = acc @ sums_from (if acc = [] then 0 else last acc) ys"
proof (induction ys arbitrary: acc k)
  case Nil
  then show ?case by simp
next
  case (Cons y ys)
  let ?c = "if acc = [] then 0 else last acc"
  have k: "k = length acc"
    using Cons.prems by simp
  have step: "array_set acc k (or_zero (array_get acc (int k - 1)) + y) = acc @ [?c + y]"
    unfolding k by (simp add: array_get_last)
  have len: "length (acc @ [?c + y]) = Suc k"
    using k by simp
  show ?case
    using Cons.IH [OF len] by (simp add: step)
qed

lemma running_sums_eq: "running_sums flows = sums_from 0 flows"
  using running_sums_fold [of "[]" 0 flows] by (simp add: running_sums_def)

lemma length_sums_from [simp]: "length (sums_from c ys) = length ys"
  by (induction ys arbitrary: c) auto

lemma sums_from_nth: "i < length ys \<Longrightarrow> sums_from c ys ! i = c + (\<Sum>j\<le>i. ys ! j)"
proof (induction ys arbitrary: c i)
  case Nil
  then show ?case by simp
next
  case (Cons y ys)
  show ?case
  proof (cases i)
    case 0
    then show ?thesis by simp
  next
    case (Suc n)
    then have "n < length ys" using Cons.prems by simp
    from Cons.IH [OF this, of "c + y"] Suc show ?thesis
      by (simp add: sum.atMost_Suc_shift del: sum.atMost_Suc)
  qed
qed

lemma fold_array_set_years:
  "length xs = k \<Longrightarrow>
   fold (\<lambda>year cfs. array_set cfs year (g year)) [k..<k + m] xs = xs @ map g [k..<k + m]"
proof (induction m)
  case 0
  then show ?case by simp
next
  case (Suc m)
  have "length (xs @ map g [k..<k + m]) = k + m"
    using Suc.prems by simp
  then have "array_set (xs @ map g [k..<k + m]) (k + m) (g (k + m)) = xs @ map g [k..<k + m] @ [g (k + m)]"
    using array_set_length [of "xs @ map g [k..<k + m]" "g (k + m)"] by simp
  then show ?case
    using Suc by simp
qed

section \<open>Free cash flows\<close>

lemma calculateFreeCashFlows_eq:
  "calculateFreeCashFlows params =
     (base_flows params)[length (base_flows params) - 1 :=
        last (base_flows params) + (terminalValue params + workingCapital params)]"
proof -
  let ?a = "- initialInvestment params - workingCapital params"
  let ?g = "\<lambda>year. snd (snd (snd (snd (fcf_year params year))))"
  have y: "years (projectTimeline params) = [1..<1 + nat (projectTimeline params)]"
    by (simp add: years_def)
  have a0: "array_set [] 0 ?a = [?a]"
    by (simp add: array_set_def)
  have f: "fold (\<lambda>year cfs. array_set cfs year (?g year)) (years (projectTimeline params)) [?a]
           = base_flows params"
    unfolding y base_flows_def using fold_array_set_years [of "[?a]" 1 ?g] by simp
  have ne: "base_flows params \<noteq> []"
    by (simp add: base_flows_def)
  show ?thesis
    unfolding calculateFreeCashFlows_def Let_def a0 f
    using ne by (simp add: last_conv_nth del: list_update.simps)
qed

lemma length_calculateFreeCashFlows:
  "length (calculateFreeCashFlows params) = Suc (nat (projectTimeline params))"
  by (simp only: calculateFreeCashFlows_eq length_list_update) (simp add: base_flows_def years_def)

lemma concrete_scenario_year1:
  "fcf_year concrete_scenario (Suc 0) = (20000, 80000, 20000, 60000, 80000)"
  by (simp add: fcf_year_def concrete_scenario_def array_get_def)

lemma concrete_scenario_flows: "calculateFreeCashFlows concrete_scenario = [-100000, 80000]"
  using concrete_scenario_year1
  by (simp add: calculateFreeCashFlows_def years_def array_set_def concrete_scenario_def)

section \<open>Metrics\<close>

text \<open>
  Claim C5. For the concrete scenario (investment 100000, one year, revenue 150000,
  costs 50000, tax 25%, discount 10%, depreciation 20%, no working capital, no terminal
  value) the year has depreciation 20000, ebit 80000, tax 20000, nopat 60000 and free
  cash flow 80000; the metrics have \<open>freeCashFlows = [-100000, 80000]\<close>,
  \<open>npv = -100000 + 80000 / 1.10\<close> and \<open>paybackPeriod = 2\<close>, the length of the
  sequence.
\<close>

theorem concrete_scenario_metrics:
  "fcf_year concrete_scenario 1 = (20000, 80000, 20000, 60000, 80000)
   \<and> freeCashFlows (calculateMetrics concrete_scenario) = [-100000, 80000]
   \<and> npv (calculateMetrics concrete_scenario) = -100000 + 80000 / (110 / 100)
   \<and> paybackPeriod (calculateMetrics concrete_scenario) = 2
   \<and> paybackPeriod (calculateMetrics concrete_scenario)
       = real (length (freeCashFlows (calculateMetrics concrete_scenario)))"
proof -
  have "npv (calculateMetrics concrete_scenario) = -100000 + 80000 / (110 / 100)"
    by (simp add: calculateMetrics_def Let_def concrete_scenario_flows calculateNPV_def)
       (simp add: concrete_scenario_def)
  moreover have "paybackPeriod (calculateMetrics concrete_scenario) = 2"
    by (simp add: calculateMetrics_def Let_def concrete_scenario_flows calculatePaybackPeriod_def)
  moreover have "freeCashFlows (calculateMetrics concrete_scenario) = [-100000, 80000]"
    by (simp add: calculateMetrics_def Let_def concrete_scenario_flows)
  ultimately show ?thesis
    using concrete_scenario_year1 by simp
qed

text \<open>
  Claim C6. For every parameter set, \<open>cumulativeCashFlows\<close> is the running prefix
  sum of \<open>freeCashFlows\<close>: the two arrays have the same length and entry \<open>i\<close> is
  the sum of \<open>freeCashFlows[0..i]\<close>; and \<open>presentValues[0] = freeCashFlows[0]\<close>,
  an entry that exists, whatever the discount rate.
\<close>

theorem cumulative_and_present_value_invariant:
  "length (cumulativeCashFlows (calculateMetrics params))
     = length (freeCashFlows (calculateMetrics params))
   \<and> (\<forall>i < length (freeCashFlows (calculateMetrics params)).
         cumulativeCashFlows (calculateMetrics params) ! i
           = (\<Sum>j\<le>i. freeCashFlows (calculateMetrics params) ! j))
   \<and> freeCashFlows (calculateMetrics params) \<noteq> []
   \<and> length (presentValues (calculateMetrics params))
       = length (freeCashFlows (calculateMetrics params))
   \<and> presentValues (calculateMetrics params) ! 0 = freeCashFlows (calculateMetrics params) ! 0"
proof -
  let ?f = "calculateFreeCashFlows params"
  have ne: "?f \<noteq> []"
    using length_calculateFreeCashFlows [of params] by auto
  have pv: "map (\<lambda>(index, flow). flow / (1 + discountRate params) ^ index) (enumerate 0 ?f) ! 0 = ?f ! 0"
    using ne by (cases ?f) simp_all
  show ?thesis
    using ne pv by (simp add: calculateMetrics_def Let_def running_sums_eq sums_from_nth)
qed

theorem cumulative_and_present_value_invariant_witness:
  "(1 :: nat) < length (freeCashFlows (calculateMetrics concrete_scenario))
   \<and> cumulativeCashFlows (calculateMetrics concrete_scenario) ! 1 = -100000 + 80000
   \<and> presentValues (calculateMetrics concrete_scenario) ! 0 = -100000"
proof -
  have flows: "freeCashFlows (calculateMetrics concrete_scenario) = [-100000, 80000]"
    by (simp add: calculateMetrics_def Let_def concrete_scenario_flows)
  have bound: "(1 :: nat) < length (freeCashFlows (calculateMetrics concrete_scenario))"
    by (simp add: flows)
  have "cumulativeCashFlows (calculateMetrics concrete_scenario) ! 1
          = (\<Sum>j\<le>1. freeCashFlows (calculateMetrics concrete_scenario) ! j)"
    using cumulative_and_present_value_invariant [of concrete_scenario] bound by blast
  moreover have "presentValues (calculateMetrics concrete_scenario) ! 0
          = freeCashFlows (calculateMetrics concrete_scenario) ! 0"
    using cumulative_and_present_value_invariant [of concrete_scenario] by blast
  ultimately show ?thesis
    using bound by (simp add: flows)
qed

section \<open>Scenario analysis\<close>

lemma fold_discount_mono:
  "list_all2 (\<le>) xs ys \<Longrightarrow> a \<le> b \<Longrightarrow> 0 < 1 + rate \<Longrightarrow>
   fold (\<lambda>(index, cashFlow) acc. acc + cashFlow / (1 + rate) ^ index) (enumerate k xs) (a :: real)
   \<le> fold (\<lambda>(index, cashFlow) acc. acc + cashFlow / (1 + rate) ^ index) (enumerate k ys) b"
proof (induction xs ys arbitrary: k a b rule: list_all2_induct)
  case Nil
  then show ?case by simp
next
  case (Cons x xs y ys)
  have "x / (1 + rate) ^ k \<le> y / (1 + rate) ^ k"
    using Cons.hyps(1) Cons.prems(2) by (simp add: divide_right_mono)
  then have "a + x / (1 + rate) ^ k \<le> b + y / (1 + rate) ^ k"
    using Cons.prems(1) by simp
  from Cons.IH [OF this Cons.prems(2)] show ?case by simp
qed

lemma calculateNPV_mono:
  "list_all2 (\<le>) xs ys \<Longrightarrow> 0 < 1 + rate \<Longrightarrow> calculateNPV xs rate \<le> calculateNPV ys rate"
  unfolding calculateNPV_def by (rule fold_discount_mono) simp_all

lemma after_tax_mono:
  fixes e1 e2 t :: real
  assumes le: "e1 \<le> e2" and t: "t \<le> 1"
  shows "e1 - (if e1 > 0 then e1 * t else 0) \<le> e2 - (if e2 > 0 then e2 * t else 0)"
proof -
  have "0 \<le> (e2 - e1) * (1 - t)"
    using le t by simp
  then have both: "e1 - e1 * t \<le> e2 - e2 * t"
    by (simp add: algebra_simps)
  show ?thesis
  proof (cases "e2 > 0")
    case True
    have "0 \<le> e2 * (1 - t)"
      using True t by simp
    then have nn: "0 \<le> e2 - e2 * t"
      by (simp add: algebra_simps)
    show ?thesis
    proof (cases "e1 > 0")
      case True
      then show ?thesis
        using \<open>e2 > 0\<close> both by simp
    next
      case False
      then have "e1 \<le> e2 - e2 * t"
        using nn by linarith
      then show ?thesis
        using False \<open>e2 > 0\<close> by simp
    qed
  next
    case False
    then show ?thesis
      using le by simp
  qed
qed

lemma or_zero_get_map:
  "f 0 = 0 \<Longrightarrow> or_zero (array_get (map f xs) i) = f (or_zero (array_get xs i))"
  by (auto simp: array_get_def)

lemma or_zero_get_nonneg:
  "\<forall>v \<in> set xs. 0 \<le> v \<Longrightarrow> 0 \<le> or_zero (array_get xs i)"
  by (auto simp: array_get_def)

lemma fcf_year_mono:
  assumes same: "initialInvestment p = initialInvestment q" "depreciationRate p = depreciationRate q"
      "taxRate p = taxRate q"
    and tax: "taxRate q \<le> 1"
    and rev: "or_zero (array_get (annualRevenues p) (int year - 1))
              \<le> or_zero (array_get (annualRevenues q) (int year - 1))"
    and cost: "or_zero (array_get (operatingCosts q) (int year - 1))
              \<le> or_zero (array_get (operatingCosts p) (int year - 1))"
  shows "snd (snd (snd (snd (fcf_year p year)))) \<le> snd (snd (snd (snd (fcf_year q year))))"
proof -
  let ?d = "initialInvestment q * depreciationRate q"
  let ?e1 = "or_zero (array_get (annualRevenues p) (int year - 1))
             - or_zero (array_get (operatingCosts p) (int year - 1)) - ?d"
  let ?e2 = "or_zero (array_get (annualRevenues q) (int year - 1))
             - or_zero (array_get (operatingCosts q) (int year - 1)) - ?d"
  have "?e1 \<le> ?e2"
    using rev cost by simp
  from after_tax_mono [OF this tax] show ?thesis
    unfolding fcf_year_def Let_def snd_conv same by linarith
qed

lemma calculateFreeCashFlows_mono:
  assumes same: "initialInvestment p = initialInvestment q" "depreciationRate p = depreciationRate q"
      "taxRate p = taxRate q" "projectTimeline p = projectTimeline q"
      "workingCapital p = workingCapital q" "terminalValue p = terminalValue q"
    and tax: "taxRate q \<le> 1"
    and rev: "\<And>i. or_zero (array_get (annualRevenues p) i) \<le> or_zero (array_get (annualRevenues q) i)"
    and cost: "\<And>i. or_zero (array_get (operatingCosts q) i) \<le> or_zero (array_get (operatingCosts p) i)"
  shows "list_all2 (\<le>) (calculateFreeCashFlows p) (calculateFreeCashFlows q)"
proof -
  have base: "list_all2 (\<le>) (base_flows p) (base_flows q)"
    unfolding base_flows_def
    using fcf_year_mono [OF same(1-3) tax rev cost]
    by (simp add: same list_all2_map1 list_all2_map2 list_all2_same)
  then have len: "length (base_flows p) = length (base_flows q)"
    by (rule list_all2_lengthD)
  have ne: "base_flows p \<noteq> []" "base_flows q \<noteq> []"
    by (simp_all add: base_flows_def)
  have "last (base_flows p) \<le> last (base_flows q)"
    using base ne len by (simp add: last_conv_nth list_all2_conv_all_nth)
  then show ?thesis
    unfolding calculateFreeCashFlows_eq len
    using base by (simp add: same list_all2_update_cong)
qed

lemma npv_calculateMetrics:
  "npv (calculateMetrics params) = calculateNPV (calculateFreeCashFlows params) (discountRate params)"
  by (simp add: calculateMetrics_def Let_def)

text \<open>
  Claim C7. When every annual revenue and every operating cost is nonnegative and the
  tax rate and the discount rate lie in \<open>[0, 1]\<close>, the scenario analysis (best case:
  revenues times 1.2, costs times 0.9; worst case: revenues times 0.8, costs times 1.15;
  base case unchanged) yields \<open>bestCase.npv \<ge> baseCase.npv \<ge> worstCase.npv\<close>.
\<close>

theorem scenario_npv_ordering:
  assumes rev: "\<forall>v \<in> set (annualRevenues params). 0 \<le> v"
    and cost: "\<forall>v \<in> set (operatingCosts params). 0 \<le> v"
    and tax: "0 \<le> taxRate params" "taxRate params \<le> 1"
    and disc: "0 \<le> discountRate params" "discountRate params \<le> 1"
  shows "npv (worstCase (calculateScenarioAnalysis params)) \<le> npv (baseCase (calculateScenarioAnalysis params))
       \<and> npv (baseCase (calculateScenarioAnalysis params)) \<le> npv (bestCase (calculateScenarioAnalysis params))"
proof -
  have r: "0 \<le> or_zero (array_get (annualRevenues params) i)" for i
    using rev by (rule or_zero_get_nonneg)
  have c: "0 \<le> or_zero (array_get (operatingCosts params) i)" for i
    using cost by (rule or_zero_get_nonneg)
  have pos: "0 < 1 + discountRate params"
    using disc by simp
  have worst: "list_all2 (\<le>) (calculateFreeCashFlows (worstCaseParams params)) (calculateFreeCashFlows params)"
  proof (rule calculateFreeCashFlows_mono)
    fix i
    show "or_zero (array_get (annualRevenues (worstCaseParams params)) i)
          \<le> or_zero (array_get (annualRevenues params) i)"
      using r [of i] by (simp add: worstCaseParams_def or_zero_get_map)
    show "or_zero (array_get (operatingCosts params) i)
          \<le> or_zero (array_get (operatingCosts (worstCaseParams params)) i)"
      using c [of i] by (simp add: worstCaseParams_def or_zero_get_map)
  qed (simp_all add: worstCaseParams_def tax)
  have best: "list_all2 (\<le>) (calculateFreeCashFlows params) (calculateFreeCashFlows (bestCaseParams params))"
  proof (rule calculateFreeCashFlows_mono)
    fix i
    show "or_zero (array_get (annualRevenues params) i)
          \<le> or_zero (array_get (annualRevenues (bestCaseParams params)) i)"
      using r [of i] by (simp add: bestCaseParams_def or_zero_get_map)
    show "or_zero (array_get (operatingCosts (bestCaseParams params)) i)
          \<le> or_zero (array_get (operatingCosts params) i)"
      using c [of i] by (simp add: bestCaseParams_def or_zero_get_map)
  qed (simp_all add: bestCaseParams_def tax)
  have dw: "discountRate (worstCaseParams params) = discountRate params"
    by (simp add: worstCaseParams_def)
  have db: "discountRate (bestCaseParams params) = discountRate params"
    by (simp add: bestCaseParams_def)
  show ?thesis
    using calculateNPV_mono [OF worst pos] calculateNPV_mono [OF best pos]
    by (simp add: calculateScenarioAnalysis_def npv_calculateMetrics dw db)
qed

theorem scenario_npv_ordering_witness:
  "list_all (\<lambda>v. 0 \<le> v) (annualRevenues concrete_scenario)
   \<and> list_all (\<lambda>v. 0 \<le> v) (operatingCosts concrete_scenario)
   \<and> taxRate concrete_scenario = 1 / 4 \<and> discountRate concrete_scenario = 1 / 10
   \<and> npv (worstCase (calculateScenarioAnalysis concrete_scenario))
       \<le> npv (baseCase (calculateScenarioAnalysis concrete_scenario))
   \<and> npv (baseCase (calculateScenarioAnalysis concrete_scenario))
       \<le> npv (bestCase (calculateScenarioAnalysis concrete_scenario))"
proof -
  have rev: "\<forall>v \<in> set (annualRevenues concrete_scenario). 0 \<le> v"
    by (simp add: concrete_scenario_def)
  have cost: "\<forall>v \<in> set (operatingCosts concrete_scenario). 0 \<le> v"
    by (simp add: concrete_scenario_def)
  have tax: "0 \<le> taxRate concrete_scenario" "taxRate concrete_scenario \<le> 1"
    by (simp_all add: concrete_scenario_def)
  have disc: "0 \<le> discountRate concrete_scenario" "discountRate concrete_scenario \<le> 1"
    by (simp_all add: concrete_scenario_def)
  show ?thesis
    using scenario_npv_ordering [OF rev cost tax disc]
    by (simp add: concrete_scenario_def)
qed

section \<open>Parameters outside their domain, short sequences\<close>

lemma or_zero_get_padded:
  "or_zero (array_get (xs @ replicate k 0) i) = or_zero (array_get xs i)"
  by (auto simp: array_get_def nth_append)

lemma fold_sum_padded:
  "fold (\<lambda>v s. s + v) (xs @ replicate k (0 :: real)) a = fold (\<lambda>v s. s + v) xs a"
  by (induction k) (simp_all add: replicate_append_same [symmetric] del: replicate_Suc)

lemma calculateFreeCashFlows_padded:
  "calculateFreeCashFlows (zero_padded params) = calculateFreeCashFlows params"
proof -
  have "fcf_year (zero_padded params) year = fcf_year params year" for year
    by (simp add: fcf_year_def Let_def zero_padded_def or_zero_get_padded)
  then have "base_flows (zero_padded params) = base_flows params"
    by (simp add: base_flows_def zero_padded_def)
  then show ?thesis
    by (simp add: calculateFreeCashFlows_eq zero_padded_def)
qed

text \<open>
  Claim C2, as amended. \<open>calculateMetrics\<close> checks none of its parameters and never
  fails with an \<open>InvalidParameterError\<close>: for every parameter set, also with
  \<open>projectTimeline < 1\<close> or a rate outside its documented domain, the call returns
  a \<open>FinancialMetrics\<close> value. Revenue and cost sequences shorter than the timeline
  are tolerated, the missing entries counting as 0: the metrics are those of the
  sequences extended by zeros.
\<close>

theorem computeMetrics_never_fails:
  "computeMetrics params = Inr (calculateMetrics params)
   \<and> calculateMetrics params = calculateMetrics (zero_padded params)"
proof -
  have r: "fold (\<lambda>rev s. s + rev) (annualRevenues (zero_padded params)) 0
           = fold (\<lambda>rev s. s + rev) (annualRevenues params) 0"
    by (simp add: zero_padded_def fold_sum_padded del: fold_append fold_replicate)
  have c: "fold (\<lambda>cost s. s + cost) (operatingCosts (zero_padded params)) 0
           = fold (\<lambda>cost s. s + cost) (operatingCosts params) 0"
    by (simp add: zero_padded_def fold_sum_padded del: fold_append fold_replicate)
  have "calculateMetrics (zero_padded params) = calculateMetrics params"
    unfolding calculateMetrics_def calculateFreeCashFlows_padded r c
    by (simp add: zero_padded_def)
  then show ?thesis
    by (simp add: computeMetrics_def)
qed

text \<open>
  Claim C2 as stated fails: with a tax rate of 2, outside \<open>[0, 1]\<close>, the call does
  not fail but returns metrics, with the free cash flows \<open>[-100000, -60000]\<close>.
\<close>

theorem computeMetrics_accepts_out_of_domain_rate:
  "taxRate over_taxed = 2
   \<and> (case computeMetrics over_taxed of
         Inl e \<Rightarrow> False
       | Inr m \<Rightarrow> freeCashFlows m = [-100000, -60000])"
  by (simp add: computeMetrics_def calculateMetrics_def Let_def calculateFreeCashFlows_def years_def
      array_set_def fcf_year_def over_taxed_def concrete_scenario_def array_get_def)

section \<open>The IRR solver\<close>

lemma fold_npv_finite:
  "1 + r \<noteq> 0 \<Longrightarrow>
   fold (\<lambda>(index, cashFlow) acc. js_add acc (js_div cashFlow (js_pow (js_add (Fin 1) (Fin r)) index)))
     (enumerate k (map Fin cfs)) (Fin a)
   = Fin (fold (\<lambda>(index, cashFlow) acc. acc + cashFlow / (1 + r) ^ index) (enumerate k cfs) a)"
proof (induction cfs arbitrary: k a)
  case Nil
  then show ?case by simp
next
  case (Cons c cfs)
  have "js_pow (Fin (1 + r)) k = Fin ((1 + r) ^ k)"
    by (cases k) simp_all
  then show ?case
    using Cons by simp
qed

lemma js_calculateNPV_finite:
  "1 + r \<noteq> 0 \<Longrightarrow> js_calculateNPV (map Fin cfs) (Fin r) = Fin (calculateNPV cfs r)"
  unfolding js_calculateNPV_def calculateNPV_def by (rule fold_npv_finite)


















section \<open>Monte Carlo simulation\<close>

lemma monteCarlo_loop:
  "fold (monteCarlo_body params rnd 0 1) [0..<n] (\<lambda>r. [], \<lambda>r. [], 0) = (h, hj, calls) \<Longrightarrow>
   h 0 = recorded_npv params rnd n \<and> hj 1 = recorded_irr params rnd n \<and> calls = 3 * n"
proof (induction n arbitrary: h hj calls)
  case 0
  then show ?case by (auto simp: recorded_npv_def recorded_irr_def)
next
  case (Suc n)
  obtain h' hj' calls' where
    st: "fold (monteCarlo_body params rnd 0 1) [0..<n] (\<lambda>r. [], \<lambda>r. [], 0) = (h', hj', calls')"
    by (cases "fold (monteCarlo_body params rnd 0 1) [0..<n] (\<lambda>r. [], \<lambda>r. [], 0)")
  from Suc.IH [OF st] have ih: "h' 0 = recorded_npv params rnd n" "hj' 1 = recorded_irr params rnd n"
      "calls' = 3 * n"
    by simp_all
  have "(h, hj, calls) = monteCarlo_body params rnd 0 1 n (h', hj', calls')"
    using Suc.prems st by simp
  then show ?case
    using ih
    by (simp add: monteCarlo_body_def Let_def array_push_def iteration_metrics_def
        recorded_npv_def recorded_irr_def)
qed

lemma runMonteCarloSimulation_eq:
  "runMonteCarloSimulation params n rnd =
     \<lparr> npvDistribution = sort (recorded_npv params rnd n),
       irrDistribution = recorded_irr params rnd n,
       probabilityOfPositiveNPV =
         real (length (filter (\<lambda>v. v > 0) (sort (recorded_npv params rnd n)))) / real n,
       expectedNPV = fold (\<lambda>v s. s + v) (sort (recorded_npv params rnd n)) 0 / real n,
       npvPercentiles =
         \<lparr> p10 = array_get (sort (recorded_npv params rnd n)) \<lfloor>real n * (1 / 10)\<rfloor>,
           p25 = array_get (sort (recorded_npv params rnd n)) \<lfloor>real n * (25 / 100)\<rfloor>,
           p50 = array_get (sort (recorded_npv params rnd n)) \<lfloor>real n * (5 / 10)\<rfloor>,
           p75 = array_get (sort (recorded_npv params rnd n)) \<lfloor>real n * (75 / 100)\<rfloor>,
           p90 = array_get (sort (recorded_npv params rnd n)) \<lfloor>real n * (9 / 10)\<rfloor> \<rparr> \<rparr>"
proof -
  obtain h hj calls where
    st: "fold (monteCarlo_body params rnd 0 1) [0..<n] (\<lambda>r. [], \<lambda>r. [], 0) = (h, hj, calls)"
    by (cases "fold (monteCarlo_body params rnd 0 1) [0..<n] (\<lambda>r. [], \<lambda>r. [], 0)")
  from monteCarlo_loop [OF st] show ?thesis
    unfolding runMonteCarloSimulation_def Let_def st array_sort_def by simp
qed

lemma percentile_index:
  fixes q :: real
  assumes "1 \<le> n" "0 \<le> q" "q < 1" "length xs = n"
  shows "array_get xs \<lfloor>real n * q\<rfloor> = Some (xs ! nat \<lfloor>real n * q\<rfloor>) \<and> nat \<lfloor>real n * q\<rfloor> < n"
proof -
  have "0 \<le> real n * q"
    using assms by simp
  then have lo: "0 \<le> \<lfloor>real n * q\<rfloor>"
    by simp
  have "real n * q < real n * 1"
    using assms by (intro mult_strict_left_mono) simp_all
  then have "real n * q < real_of_int (int n)"
    by simp
  then have hi: "\<lfloor>real n * q\<rfloor> < int n"
    by (simp only: floor_less_iff)
  have idx: "nat \<lfloor>real n * q\<rfloor> < n"
    using lo hi by linarith
  have "array_get xs \<lfloor>real n * q\<rfloor> = Some (xs ! nat \<lfloor>real n * q\<rfloor>)"
    unfolding array_get_def using lo hi assms(4) by (simp only: if_True simp_thms)
  then show ?thesis
    using idx by simp
qed

lemma percentile_mono:
  fixes q q' :: real
  assumes "sorted xs" "1 \<le> n" "0 \<le> q" "q \<le> q'" "q' < 1" "length xs = n"
  shows "xs ! nat \<lfloor>real n * q\<rfloor> \<le> xs ! nat \<lfloor>real n * q'\<rfloor>"
proof -
  have "real n * q \<le> real n * q'"
    using assms by (simp add: mult_left_mono)
  then have "nat \<lfloor>real n * q\<rfloor> \<le> nat \<lfloor>real n * q'\<rfloor>"
    by (simp add: floor_mono nat_mono)
  moreover have "nat \<lfloor>real n * q'\<rfloor> < length xs"
    using percentile_index [of n q' xs] assms by simp
  ultimately show ?thesis
    using assms(1) by (simp add: sorted_nth_mono)
qed

text \<open>
  Claim C8. For every parameter set and every number \<open>N \<ge> 1\<close> of iterations,
  \<open>npvDistribution\<close> and \<open>irrDistribution\<close> both have length \<open>N\<close>,
  \<open>probabilityOfPositiveNPV\<close> lies in \<open>[0, 1]\<close>, and the five percentiles are
  defined and non-decreasing: \<open>p10 \<le> p25 \<le> p50 \<le> p75 \<le> p90\<close>.
\<close>

theorem monteCarlo_result_shape:
  assumes n: "1 \<le> iterations"
  shows "length (npvDistribution (runMonteCarloSimulation params iterations rnd)) = iterations
    \<and> length (irrDistribution (runMonteCarloSimulation params iterations rnd)) = iterations
    \<and> 0 \<le> probabilityOfPositiveNPV (runMonteCarloSimulation params iterations rnd)
    \<and> probabilityOfPositiveNPV (runMonteCarloSimulation params iterations rnd) \<le> 1
    \<and> (\<exists>a b c d e.
          p10 (npvPercentiles (runMonteCarloSimulation params iterations rnd)) = Some a
        \<and> p25 (npvPercentiles (runMonteCarloSimulation params iterations rnd)) = Some b
        \<and> p50 (npvPercentiles (runMonteCarloSimulation params iterations rnd)) = Some c
        \<and> p75 (npvPercentiles (runMonteCarloSimulation params iterations rnd)) = Some d
        \<and> p90 (npvPercentiles (runMonteCarloSimulation params iterations rnd)) = Some e
        \<and> a \<le> b \<and> b \<le> c \<and> c \<le> d \<and> d \<le> e)"
proof -
  let ?s = "sort (recorded_npv params rnd iterations)"
  have len: "length ?s = iterations"
    by (simp add: recorded_npv_def)
  have srt: "sorted ?s"
    by simp
  have "length (filter (\<lambda>v. v > 0) ?s) \<le> iterations"
    using length_filter_le [of "\<lambda>v. v > 0" ?s] len by simp
  then have prob: "real (length (filter (\<lambda>v. v > 0) ?s)) / real iterations \<le> 1"
    using n by (simp add: divide_le_eq_1)
  have p: "array_get ?s \<lfloor>real iterations * q\<rfloor> = Some (?s ! nat \<lfloor>real iterations * q\<rfloor>)"
    if "0 \<le> q" "q < 1" for q :: real
    using percentile_index [OF n that len] by simp
  have m1: "?s ! nat \<lfloor>real iterations * (1 / 10)\<rfloor> \<le> ?s ! nat \<lfloor>real iterations * (25 / 100)\<rfloor>"
    by (rule percentile_mono [OF srt n _ _ _ len]) simp_all
  have m2: "?s ! nat \<lfloor>real iterations * (25 / 100)\<rfloor> \<le> ?s ! nat \<lfloor>real iterations * (5 / 10)\<rfloor>"
    by (rule percentile_mono [OF srt n _ _ _ len]) simp_all
  have m3: "?s ! nat \<lfloor>real iterations * (5 / 10)\<rfloor> \<le> ?s ! nat \<lfloor>real iterations * (75 / 100)\<rfloor>"
    by (rule percentile_mono [OF srt n _ _ _ len]) simp_all
  have m4: "?s ! nat \<lfloor>real iterations * (75 / 100)\<rfloor> \<le> ?s ! nat \<lfloor>real iterations * (9 / 10)\<rfloor>"
    by (rule percentile_mono [OF srt n _ _ _ len]) simp_all
  show ?thesis
    unfolding runMonteCarloSimulation_eq
    using prob m1 m2 m3 m4 p [of "1 / 10"] p [of "25 / 100"] p [of "5 / 10"] p [of "75 / 100"] p [of "9 / 10"]
    by (simp add: recorded_npv_def recorded_irr_def)
qed

theorem monteCarlo_result_shape_witness:
  "length (npvDistribution (runMonteCarloSimulation concrete_scenario 2 draws_low_second)) = 2
   \<and> length (irrDistribution (runMonteCarloSimulation concrete_scenario 2 draws_low_second)) = 2
   \<and> 0 \<le> probabilityOfPositiveNPV (runMonteCarloSimulation concrete_scenario 2 draws_low_second)
   \<and> probabilityOfPositiveNPV (runMonteCarloSimulation concrete_scenario 2 draws_low_second) \<le> 1
   \<and> (\<exists>a b c d e.
          p10 (npvPercentiles (runMonteCarloSimulation concrete_scenario 2 draws_low_second)) = Some a
        \<and> p25 (npvPercentiles (runMonteCarloSimulation concrete_scenario 2 draws_low_second)) = Some b
        \<and> p50 (npvPercentiles (runMonteCarloSimulation concrete_scenario 2 draws_low_second)) = Some c
        \<and> p75 (npvPercentiles (runMonteCarloSimulation concrete_scenario 2 draws_low_second)) = Some d
        \<and> p90 (npvPercentiles (runMonteCarloSimulation concrete_scenario 2 draws_low_second)) = Some e
        \<and> a \<le> b \<and> b \<le> c \<and> c \<le> d \<and> d \<le> e)"
proof -
  have n: "(1 :: nat) \<le> 2"
    by simp
  show ?thesis
    by (rule monteCarlo_result_shape [OF n])
qed

lemma simulated_npv_half:
  "npv (calculateMetrics (simulationParams concrete_scenario (1 / 2) (1 / 2) (1 / 2)))
     = -100000 + 80000 / (11 / 10)"
  by (simp add: npv_calculateMetrics calculateNPV_def calculateFreeCashFlows_def years_def
      array_set_def fcf_year_def simulationParams_def concrete_scenario_def array_get_def Let_def)

lemma simulated_npv_low:
  "npv (calculateMetrics (simulationParams concrete_scenario 0 (1 / 2) (1 / 2)))
     = -100000 + 57500 / (11 / 10)"
  by (simp add: npv_calculateMetrics calculateNPV_def calculateFreeCashFlows_def years_def
      array_set_def fcf_year_def simulationParams_def concrete_scenario_def array_get_def Let_def)

lemma simulated_npv_zero:
  "npv (calculateMetrics (simulationParams concrete_scenario 0 0 0))
     = -100000 + 63125 / (109 / 100)"
  by (simp add: npv_calculateMetrics calculateNPV_def calculateFreeCashFlows_def years_def
      array_set_def fcf_year_def simulationParams_def concrete_scenario_def array_get_def Let_def)

text \<open>
  Claim C3 fails on the code. \<open>npvResults.sort(...)\<close> sorts the array in place and
  \<open>sortedNPV\<close> is the same array, so the returned \<open>npvDistribution\<close> is in
  ascending order, not in the order of the iterations. For the concrete scenario, two
  iterations and a low revenue draw in the second one, \<open>npvDistribution[0]\<close> is the
  npv of iteration 1, which is smaller than the npv of iteration 0, while
  \<open>irrDistribution[0]\<close> is the irr of iteration 0.
\<close>

theorem npvDistribution_sorted_in_place:
  "npvDistribution (runMonteCarloSimulation concrete_scenario 2 draws_low_second)
     = [npv (iteration_metrics concrete_scenario draws_low_second 1),
        npv (iteration_metrics concrete_scenario draws_low_second 0)]
   \<and> npv (iteration_metrics concrete_scenario draws_low_second 1)
       < npv (iteration_metrics concrete_scenario draws_low_second 0)
   \<and> irrDistribution (runMonteCarloSimulation concrete_scenario 2 draws_low_second)
     = [irr (iteration_metrics concrete_scenario draws_low_second 0),
        irr (iteration_metrics concrete_scenario draws_low_second 1)]
   \<and> npv (iteration_metrics concrete_scenario draws_low_second 0) = -100000 + 80000 / (11 / 10)
   \<and> npv (iteration_metrics concrete_scenario draws_low_second 1) = -100000 + 57500 / (11 / 10)"
proof -
  have n0: "npv (iteration_metrics concrete_scenario draws_low_second 0) = -100000 + 80000 / (11 / 10)"
    using simulated_npv_half by (simp add: iteration_metrics_def draws_low_second_def)
  have n1: "npv (iteration_metrics concrete_scenario draws_low_second 1) = -100000 + 57500 / (11 / 10)"
    using simulated_npv_low by (simp add: iteration_metrics_def draws_low_second_def)
  have two: "[0..<2] = [0, 1]"
    by (simp add: upt_rec)
  have lt: "npv (iteration_metrics concrete_scenario draws_low_second 1)
       < npv (iteration_metrics concrete_scenario draws_low_second 0)"
    unfolding n0 n1 by simp
  then have "sort (recorded_npv concrete_scenario draws_low_second 2)
      = [npv (iteration_metrics concrete_scenario draws_low_second 1),
         npv (iteration_metrics concrete_scenario draws_low_second 0)]"
    unfolding recorded_npv_def two by simp
  then have sorted_npv: "npvDistribution (runMonteCarloSimulation concrete_scenario 2 draws_low_second)
      = [npv (iteration_metrics concrete_scenario draws_low_second 1),
         npv (iteration_metrics concrete_scenario draws_low_second 0)]"
    by (simp add: runMonteCarloSimulation_eq)
  have recorded: "irrDistribution (runMonteCarloSimulation concrete_scenario 2 draws_low_second)
      = [irr (iteration_metrics concrete_scenario draws_low_second 0),
         irr (iteration_metrics concrete_scenario draws_low_second 1)]"
    by (simp add: runMonteCarloSimulation_eq recorded_irr_def two)
  from sorted_npv lt recorded n0 n1 show ?thesis
    by blast
qed

lemma iteration_metrics_cong:
  assumes "\<forall>k < 3 * n. rnd1 k = rnd2 k" "i < n"
  shows "iteration_metrics params rnd1 i = iteration_metrics params rnd2 i"
proof -
  have "3 * i < 3 * n" "3 * i + 1 < 3 * n" "3 * i + 2 < 3 * n"
    using assms(2) by simp_all
  then show ?thesis
    using assms(1) by (simp add: iteration_metrics_def)
qed

text \<open>
  Claim C4, as amended. \<open>runMonteCarloSimulation\<close> takes no seed; its result is
  determined by the parameters, the number of iterations and the values that the first
  \<open>3 \<times> iterations\<close> calls of \<open>Math.random()\<close> return. Two runs in which these
  values agree return identical results, whatever is passed as a seed.
\<close>

theorem monteCarlo_determined_by_draws:
  assumes "\<forall>k < 3 * iterations. rnd1 k = rnd2 k"
  shows "runMonteCarlo params iterations seed1 rnd1 = runMonteCarlo params iterations seed2 rnd2"
proof -
  have "recorded_npv params rnd1 iterations = recorded_npv params rnd2 iterations"
    using iteration_metrics_cong [OF assms] by (simp add: recorded_npv_def)
  moreover have "recorded_irr params rnd1 iterations = recorded_irr params rnd2 iterations"
    using iteration_metrics_cong [OF assms] by (simp add: recorded_irr_def)
  ultimately show ?thesis
    by (simp add: runMonteCarlo_def runMonteCarloSimulation_eq)
qed

theorem monteCarlo_determined_by_draws_witness:
  "draws_half 3 \<noteq> draws_half_then_zero 3
   \<and> runMonteCarlo concrete_scenario 1 None draws_half
       = runMonteCarlo concrete_scenario 1 (Some 42) draws_half_then_zero"
proof -
  have agree: "\<forall>k < 3 * 1. draws_half k = draws_half_then_zero k"
    by (simp add: draws_half_def draws_half_then_zero_def)
  have differ: "draws_half 3 \<noteq> draws_half_then_zero 3"
    by (simp add: draws_half_def draws_half_then_zero_def)
  show ?thesis
    using differ monteCarlo_determined_by_draws [OF agree, of concrete_scenario None "Some 42"]
    by blast
qed

text \<open>
  Claim C4 as stated fails: two runs with the same parameters, the same number of
  iterations and the same seed, in which \<open>Math.random()\<close> returns different values,
  return different results.
\<close>

theorem monteCarlo_seed_does_not_fix_result:
  "runMonteCarlo concrete_scenario 1 (Some 42) draws_half
     \<noteq> runMonteCarlo concrete_scenario 1 (Some 42) draws_zero
   \<and> expectedNPV (runMonteCarlo concrete_scenario 1 (Some 42) draws_half)
       = -100000 + 80000 / (11 / 10)
   \<and> expectedNPV (runMonteCarlo concrete_scenario 1 (Some 42) draws_zero)
       = -100000 + 63125 / (109 / 100)"
proof -
  have a: "expectedNPV (runMonteCarlo concrete_scenario 1 (Some 42) draws_half)
             = -100000 + 80000 / (11 / 10)"
    using simulated_npv_half
    by (simp add: runMonteCarlo_def runMonteCarloSimulation_eq recorded_npv_def
        iteration_metrics_def draws_half_def)
  have b: "expectedNPV (runMonteCarlo concrete_scenario 1 (Some 42) draws_zero)
             = -100000 + 63125 / (109 / 100)"
    using simulated_npv_zero
    by (simp add: runMonteCarlo_def runMonteCarloSimulation_eq recorded_npv_def
        iteration_metrics_def draws_zero_def)
  have "expectedNPV (runMonteCarlo concrete_scenario 1 (Some 42) draws_half)
          \<noteq> expectedNPV (runMonteCarlo concrete_scenario 1 (Some 42) draws_zero)"
    unfolding a b by simp
  then have "runMonteCarlo concrete_scenario 1 (Some 42) draws_half
     \<noteq> runMonteCarlo concrete_scenario 1 (Some 42) draws_zero"
    by auto
  with a b show ?thesis
    by blast
qed

section \<open>Financial statements\<close>

lemma cashFlowStatement_body_pushes:
  "\<exists>s. cashFlowStatement_body params year (statements, b) = (statements @ [s], cf_endingCashBalance s)
       \<and> cf_year s = year
       \<and> cf_beginningCashBalance s = b
       \<and> cf_debtIssuance s = (if year = 1 then initialInvestment params * (6 / 10) else 0)
       \<and> cf_debtRepayment s = 0"
  by (simp add: cashFlowStatement_body_def Let_def)

lemma cashFlow_loop:
  "fold (cashFlowStatement_body params) [1..<Suc n] ([], w) = (statements, b) \<Longrightarrow>
   length statements = n
   \<and> b = (if statements = [] then w else cf_endingCashBalance (last statements))
   \<and> (\<forall>y < n. cf_year (statements ! y) = Suc y
         \<and> cf_debtIssuance (statements ! y) = (if y = 0 then initialInvestment params * (6 / 10) else 0)
         \<and> cf_debtRepayment (statements ! y) = 0
         \<and> cf_beginningCashBalance (statements ! y)
             = (if y = 0 then w else cf_endingCashBalance (statements ! (y - 1))))"
proof (induction n arbitrary: statements b)
  case 0
  then show ?case by auto
next
  case (Suc n)
  obtain st0 b0 where st: "fold (cashFlowStatement_body params) [1..<Suc n] ([], w) = (st0, b0)"
    by (cases "fold (cashFlowStatement_body params) [1..<Suc n] ([], w)")
  note ih = Suc.IH [OF st]
  obtain s where s: "cashFlowStatement_body params (Suc n) (st0, b0) = (st0 @ [s], cf_endingCashBalance s)"
      "cf_year s = Suc n" "cf_beginningCashBalance s = b0"
      "cf_debtIssuance s = (if Suc n = 1 then initialInvestment params * (6 / 10) else 0)"
      "cf_debtRepayment s = 0"
    using cashFlowStatement_body_pushes [of params "Suc n" st0 b0] by blast
  have eq: "statements = st0 @ [s]" "b = cf_endingCashBalance s"
    using Suc.prems st s(1) by simp_all
  have len: "length st0 = n"
    using ih by simp
  have b0: "b0 = (if n = 0 then w else cf_endingCashBalance (st0 ! (n - 1)))"
    using ih len by (cases st0 rule: rev_cases) (auto simp: nth_append)
  have "\<forall>y < Suc n. cf_year (statements ! y) = Suc y
         \<and> cf_debtIssuance (statements ! y) = (if y = 0 then initialInvestment params * (6 / 10) else 0)
         \<and> cf_debtRepayment (statements ! y) = 0
         \<and> cf_beginningCashBalance (statements ! y)
             = (if y = 0 then w else cf_endingCashBalance (statements ! (y - 1)))"
  proof (intro allI impI)
    fix y assume y: "y < Suc n"
    show "cf_year (statements ! y) = Suc y
         \<and> cf_debtIssuance (statements ! y) = (if y = 0 then initialInvestment params * (6 / 10) else 0)
         \<and> cf_debtRepayment (statements ! y) = 0
         \<and> cf_beginningCashBalance (statements ! y)
             = (if y = 0 then w else cf_endingCashBalance (statements ! (y - 1)))"
    proof (cases "y < n")
      case True
      then have "y - 1 < n"
        by simp
      then show ?thesis
        using True ih len by (simp add: eq nth_append)
    next
      case False
      then have "y = n" using y by simp
      then show ?thesis
        using s(2-5) len b0 by (simp add: eq nth_append)
    qed
  qed
  then show ?case
    using len by (simp add: eq)
qed

lemma generateCashFlowStatements_years:
  "length (generateCashFlowStatements params) = nat (projectTimeline params)
   \<and> (\<forall>y < nat (projectTimeline params).
         cf_year (generateCashFlowStatements params ! y) = Suc y
         \<and> cf_debtIssuance (generateCashFlowStatements params ! y)
             = (if y = 0 then initialInvestment params * (6 / 10) else 0)
         \<and> cf_debtRepayment (generateCashFlowStatements params ! y) = 0
         \<and> cf_beginningCashBalance (generateCashFlowStatements params ! y)
             = (if y = 0 then workingCapital params
                else cf_endingCashBalance (generateCashFlowStatements params ! (y - 1))))"
proof -
  obtain statements b where st:
    "fold (cashFlowStatement_body params) [1..<Suc (nat (projectTimeline params))]
       ([], workingCapital params) = (statements, b)"
    by (cases "fold (cashFlowStatement_body params) [1..<Suc (nat (projectTimeline params))]
       ([], workingCapital params)")
  have "generateCashFlowStatements params = statements"
    unfolding generateCashFlowStatements_def years_def st by simp
  then show ?thesis
    using cashFlow_loop [OF st] by simp
qed

lemma balanceSheet_body_pushes:
  "\<exists>s r a c. balanceSheet_body params year (sheets, r0, a0, c0) = (sheets @ [s], r, a, c)
       \<and> bs_cashAndEquivalents s
           = c0 + ((or_zero (array_get (annualRevenues params) (int year - 1))
                    - or_zero (array_get (operatingCosts params) (int year - 1))
                    - initialInvestment params * depreciationRate params)
                   + initialInvestment params * depreciationRate params)"
  by (simp add: balanceSheet_body_def Let_def)

lemma balanceSheet_loop_prefix:
  "\<exists>zs. fst (fold (balanceSheet_body params) ys st) = fst st @ zs \<and> length zs = length ys"
proof (induction ys arbitrary: st)
  case Nil
  then show ?case by simp
next
  case (Cons y ys)
  obtain sheets r0 a0 c0 where st: "st = (sheets, r0, a0, c0)"
    by (cases st)
  obtain s r a c where s: "balanceSheet_body params y (sheets, r0, a0, c0) = (sheets @ [s], r, a, c)"
    using balanceSheet_body_pushes [of params y sheets r0 a0 c0] by blast
  from Cons.IH [of "(sheets @ [s], r, a, c)"] show ?case
    by (auto simp: st s)
qed

lemma generateBalanceSheets_first:
  assumes "1 \<le> projectTimeline params"
  shows "length (generateBalanceSheets params) = nat (projectTimeline params)
   \<and> bs_cashAndEquivalents (generateBalanceSheets params ! 0)
       = workingCapital params
         + ((or_zero (array_get (annualRevenues params) 0)
             - or_zero (array_get (operatingCosts params) 0)
             - initialInvestment params * depreciationRate params)
            + initialInvestment params * depreciationRate params)"
proof -
  let ?n = "nat (projectTimeline params)"
  have "1 < Suc ?n"
    using assms by simp
  then have ys: "years (projectTimeline params) = 1 # [Suc 1..<Suc ?n]"
    unfolding years_def by (rule upt_conv_Cons)
  obtain s r a c where s:
    "balanceSheet_body params 1 ([], 0, 0, workingCapital params) = ([] @ [s], r, a, c)"
    "bs_cashAndEquivalents s
       = workingCapital params
         + ((or_zero (array_get (annualRevenues params) (int 1 - 1))
             - or_zero (array_get (operatingCosts params) (int 1 - 1))
             - initialInvestment params * depreciationRate params)
            + initialInvestment params * depreciationRate params)"
    using balanceSheet_body_pushes [of params 1 "[]" 0 0 "workingCapital params"] by blast
  obtain zs where zs:
    "fst (fold (balanceSheet_body params) [Suc 1..<Suc ?n] ([s], r, a, c)) = [s] @ zs"
    "length zs = length [Suc 1..<Suc ?n]"
    using balanceSheet_loop_prefix [of params "[Suc 1..<Suc ?n]" "([s], r, a, c)"] by auto
  have lz: "length zs = ?n - 1"
    unfolding zs(2) length_upt by simp
  have "generateBalanceSheets params = s # zs"
    unfolding generateBalanceSheets_def ys using s(1) zs(1) by simp
  then show ?thesis
    using s(2) lz assms by simp
qed

text \<open>
  Claim C10. For \<open>projectTimeline \<ge> 1\<close> the running cash balances start at
  \<open>workingCapital\<close>: the first cash-flow statement has
  \<open>beginningCashBalance = workingCapital\<close>, the balance sheet of year 1 has
  \<open>cashAndEquivalents = workingCapital + (revenue1 - operatingCost1 - depreciation) + depreciation\<close>,
  and every later cash-flow statement begins with the ending balance of the year
  before. Both series have one entry per year.
\<close>

theorem cash_balances_start_at_working_capital:
  assumes "1 \<le> projectTimeline params"
  shows "cf_beginningCashBalance (generateCashFlowStatements params ! 0) = workingCapital params
    \<and> bs_cashAndEquivalents (generateBalanceSheets params ! 0)
       = workingCapital params
         + ((or_zero (array_get (annualRevenues params) 0)
             - or_zero (array_get (operatingCosts params) 0)
             - initialInvestment params * depreciationRate params)
            + initialInvestment params * depreciationRate params)
    \<and> (\<forall>y. Suc y < length (generateCashFlowStatements params) \<longrightarrow>
          cf_beginningCashBalance (generateCashFlowStatements params ! Suc y)
            = cf_endingCashBalance (generateCashFlowStatements params ! y))
    \<and> length (generateCashFlowStatements params) = nat (projectTimeline params)
    \<and> length (generateBalanceSheets params) = nat (projectTimeline params)"
proof -
  have pos: "0 < nat (projectTimeline params)"
    using assms by simp
  show ?thesis
    using generateCashFlowStatements_years [of params] generateBalanceSheets_first [OF assms] pos
    by auto
qed

theorem cash_balances_start_at_working_capital_witness:
  "cf_beginningCashBalance (generateCashFlowStatements three_year_project ! 0) = 10000
   \<and> bs_cashAndEquivalents (generateBalanceSheets three_year_project ! 0) = 110000
   \<and> cf_beginningCashBalance (generateCashFlowStatements three_year_project ! 1)
       = cf_endingCashBalance (generateCashFlowStatements three_year_project ! 0)
   \<and> length (generateCashFlowStatements three_year_project) = 3"
proof -
  have t: "1 \<le> projectTimeline three_year_project"
    by (simp add: three_year_project_def)
  have len: "length (generateCashFlowStatements three_year_project) = 3"
    using cash_balances_start_at_working_capital [OF t] by (simp add: three_year_project_def)
  then have "Suc 0 < length (generateCashFlowStatements three_year_project)"
    by simp
  then have "cf_beginningCashBalance (generateCashFlowStatements three_year_project ! Suc 0)
       = cf_endingCashBalance (generateCashFlowStatements three_year_project ! 0)"
    using cash_balances_start_at_working_capital [OF t] by blast
  then show ?thesis
    using cash_balances_start_at_working_capital [OF t] len
    by (simp add: three_year_project_def array_get_def)
qed

text \<open>
  Claim C1 fails on the code. \<open>debtRepayment\<close> divides the \<open>debtIssuance\<close> of
  the same year, which is 0 in every year after the first, so the repayment is 0 in
  every year. For the three-year project the statement of year 2 has
  \<open>debtRepayment = 0\<close>, where the issuance of year 1 spread over the remaining years
  is \<open>0.6 \<times> 100000 / (3 - 1) = 30000\<close>; the statements of \<open>generateFinancialReports\<close>
  are the same.
\<close>

theorem debt_repayment_is_zero_in_year_two:
  "cf_year (generateCashFlowStatements three_year_project ! 1) = 2
   \<and> cf_debtRepayment (generateCashFlowStatements three_year_project ! 1) = 0
   \<and> cf_debtRepayment (cashFlowStatements (generateFinancialReports three_year_project) ! 1) = 0
   \<and> (6 / 10 * initialInvestment three_year_project)
       / (real_of_int (projectTimeline three_year_project) - 1) = 30000"
proof -
  have "(1 :: nat) < nat (projectTimeline three_year_project)"
    by (simp add: three_year_project_def)
  then have "cf_year (generateCashFlowStatements three_year_project ! 1) = Suc 1
      \<and> cf_debtRepayment (generateCashFlowStatements three_year_project ! 1) = 0"
    using generateCashFlowStatements_years [of three_year_project] by blast
  moreover have "(6 / 10 * initialInvestment three_year_project)
       / (real_of_int (projectTimeline three_year_project) - 1) = 30000"
    by (simp add: three_year_project_def)
  ultimately show ?thesis
    by (simp add: generateFinancialReports_def Let_def)
qed

end
